theory Spec2Isabelle
  imports Main "HOL-Library.AList"
begin

section \<open>Python values\<close>

text \<open>
  The values that \<^verbatim>\<open>json.loads\<close> and \<^verbatim>\<open>response.json\<close> produce. A JSON object is
  the list of the items of the decoded \<^verbatim>\<open>dict\<close>. Python floats are kept abstract: the
  type parameter \<open>'f\<close> stands for them, and everything the program does with a float
  goes through the record \<open>builtins\<close> below, so every theorem holds for whatever
  \<^verbatim>\<open>float\<close>, \<^verbatim>\<open>int\<close> and \<^verbatim>\<open>repr\<close> compute.
\<close>

datatype 'f json =
    JNull
  | JBool bool
  | JInt int
  | JFloat 'f
  | JStr string
  | JArr "'f json list"
  | JObj "(string \<times> 'f json) list"

text \<open>What made \<^verbatim>\<open>_get_json\<close> give up: the exception caught at api.py line 58.\<close>

datatype http_failure =
    TimedOut
  | ClientFailure
  | BadStatus nat
  | DecodeFailure

text \<open>
  The exceptions of the program. \<open>XToolApiError url cause\<close> is the message
  \<^verbatim>\<open>f"Request failed for {url}: {err}"\<close>; \<open>UpdateFailed\<close> carries the same text
  (\<^verbatim>\<open>UpdateFailed(str(err))\<close>). The others are raised by the Python runtime.
\<close>

datatype pyerr =
    XToolApiError string http_failure
  | UpdateFailed string http_failure
  | HomeAssistantError string
  | AttributeError
  | KeyError
  | TypeError
  | ValueError
  | OverflowError
  | RecursionError
  | OSError

record 'f builtins =
  py_float :: "'f json \<Rightarrow> pyerr + 'f"
  py_int :: "'f json \<Rightarrow> pyerr + int"
  py_repr :: "'f json \<Rightarrow> string"
  py_zero :: 'f
  py_float_eq_int :: "'f \<Rightarrow> int \<Rightarrow> bool"
  py_float_bool :: "'f \<Rightarrow> bool"

text \<open>\<^verbatim>\<open>str(x)\<close>: a \<^verbatim>\<open>str\<close> is returned as it is, every other value is printed.\<close>

definition py_str :: "'f builtins \<Rightarrow> 'f json \<Rightarrow> string" where
  "py_str B j = (case j of JStr s \<Rightarrow> s | _ \<Rightarrow> py_repr B j)"


text \<open>\<^verbatim>\<open>x == n\<close> for a decoded value and an \<^verbatim>\<open>int\<close> (\<^verbatim>\<open>True == 1\<close> in Python).\<close>

definition py_eq_int :: "'f builtins \<Rightarrow> 'f json \<Rightarrow> int \<Rightarrow> bool" where
  "py_eq_int B j n =
     (case j of
        JInt m \<Rightarrow> m = n
      | JBool b \<Rightarrow> (if b then 1 else 0) = n
      | JFloat x \<Rightarrow> py_float_eq_int B x n
      | _ \<Rightarrow> False)"

text \<open>
  \<^verbatim>\<open>payload.get(key, default)\<close>: only a \<^verbatim>\<open>dict\<close> has the method; on any other
  decoded value the attribute lookup raises \<^verbatim>\<open>AttributeError\<close>.
\<close>

fun json_get :: "'f json \<Rightarrow> string \<Rightarrow> 'f json \<Rightarrow> pyerr + 'f json" where
  "json_get (JObj kvs) k d = Inr (case map_of kvs k of Some v \<Rightarrow> v | None \<Rightarrow> d)"
| "json_get _ k d = Inl AttributeError"

text \<open>Sequencing of two steps, the first of which may raise.\<close>

definition and_then :: "pyerr + 'a \<Rightarrow> ('a \<Rightarrow> pyerr + 'b) \<Rightarrow> pyerr + 'b" where
  "and_then r f = (case r of Inl e \<Rightarrow> Inl e | Inr x \<Rightarrow> f x)"

text \<open>
  A \<^verbatim>\<open>str\<close> is modelled by its UTF-8 encoding, one \<open>char\<close> for each byte, so that
  every code point has a place in it. \<open>PY_WHITESPACE\<close> lists the encodings of the code
  points for which \<^verbatim>\<open>str.isspace\<close> holds: U+0009 to U+000D, U+001C to U+0020, U+0085,
  U+00A0, U+1680, U+2000 to U+200A, U+2028, U+2029, U+202F, U+205F and U+3000.
\<close>

definition PY_WHITESPACE :: "string list" where
  "PY_WHITESPACE =
     [[CHR 0x09], [CHR 0x0A], [CHR 0x0B],
      [CHR 0x0C], [CHR 0x0D], [CHR 0x1C],
      [CHR 0x1D], [CHR 0x1E], [CHR 0x1F],
      [CHR 0x20], [CHR 0xC2, CHR 0x85], [CHR 0xC2, CHR 0xA0],
      [CHR 0xE1, CHR 0x9A, CHR 0x80], [CHR 0xE2, CHR 0x80, CHR 0x80], [CHR 0xE2, CHR 0x80, CHR 0x81],
      [CHR 0xE2, CHR 0x80, CHR 0x82], [CHR 0xE2, CHR 0x80, CHR 0x83], [CHR 0xE2, CHR 0x80, CHR 0x84],
      [CHR 0xE2, CHR 0x80, CHR 0x85], [CHR 0xE2, CHR 0x80, CHR 0x86], [CHR 0xE2, CHR 0x80, CHR 0x87],
      [CHR 0xE2, CHR 0x80, CHR 0x88], [CHR 0xE2, CHR 0x80, CHR 0x89], [CHR 0xE2, CHR 0x80, CHR 0x8A],
      [CHR 0xE2, CHR 0x80, CHR 0xA8], [CHR 0xE2, CHR 0x80, CHR 0xA9], [CHR 0xE2, CHR 0x80, CHR 0xAF],
      [CHR 0xE2, CHR 0x81, CHR 0x9F], [CHR 0xE3, CHR 0x80, CHR 0x80]]"

text \<open>Removing from the front of \<open>s\<close> every leading occurrence of one of the words \<open>ws\<close>.\<close>

function strip_front :: "string list \<Rightarrow> string \<Rightarrow> string" where
  "strip_front ws s =
     (case find (\<lambda>w. w \<noteq> [] \<and> take (length w) s = w) ws of
        None \<Rightarrow> s
      | Some w \<Rightarrow> strip_front ws (drop (length w) s))"
  by pat_completeness auto
termination
proof (relation "measure (\<lambda>(ws, s). length s)")
  show "wf (measure (\<lambda>(ws, s). length s))" by simp
next
  fix ws :: "string list" and s w :: string
  assume "find (\<lambda>w. w \<noteq> [] \<and> take (length w) s = w) ws = Some w"
  then have w: "w \<noteq> []" "take (length w) s = w" by (auto simp: find_Some_iff)
  then have "s \<noteq> []" by auto
  with w(1) show "((ws, drop (length w) s), (ws, s)) \<in> measure (\<lambda>(ws, s). length s)" by simp
qed

text \<open>\<^verbatim>\<open>str.strip()\<close>: whitespace is removed at both ends.\<close>

definition py_strip :: "string \<Rightarrow> string" where
  "py_strip s = rev (strip_front (map rev PY_WHITESPACE) (rev (strip_front PY_WHITESPACE s)))"

section \<open>The HTTP client (api.py)\<close>

text \<open>
  A text given to the JSON decoder (\<^verbatim>\<open>json.loads\<close>), by what the decoder does with it:
  \<^item> \<open>NotJson\<close>: the text is not JSON, the decoder raises \<^verbatim>\<open>JSONDecodeError\<close> (a
    \<^verbatim>\<open>ValueError\<close>);
  \<^item> \<open>TooDeep\<close>: the text is JSON nested deeper than the interpreter's recursion limit,
    the decoder raises \<^verbatim>\<open>RecursionError\<close>;
  \<^item> \<open>Json j\<close>: the decoder returns \<open>j\<close>.
\<close>

datatype 'f body = NotJson | TooDeep | Json "'f json"

text \<open>
  One GET and what comes back: no response in time, no response at all, a response with
  a status and a body that is not empty, or a response with a status and an empty body
  (\<^verbatim>\<open>response.json\<close> of aiohttp returns \<^verbatim>\<open>None\<close> for a body that is empty or blank
  without calling the decoder).
\<close>

datatype 'f http_response =
    RequestTimeout
  | TransportFailure
  | Response nat "'f body"
  | EmptyResponse nat

record request =
  url :: string
  params :: "(string \<times> string) list"

type_synonym 'f network = "request \<Rightarrow> 'f http_response"

text \<open>
  The client object: the configured host, the push-channel task (a task id of the
  event loop) and the stop signal.
\<close>

record client =
  host :: string
  ws_task :: "nat option"
  ws_stop :: bool

definition XToolApiClient :: "string \<Rightarrow> client" where
  "XToolApiClient h = \<lparr>host = py_strip h, ws_task = None, ws_stop = False\<rparr>"

definition DEFAULT_PORT :: string where
  "DEFAULT_PORT = ''8080''"

definition base_url :: "client \<Rightarrow> string" where
  "base_url c = ''http://'' @ host c @ '':'' @ DEFAULT_PORT"

text \<open>
  \<^verbatim>\<open>_get_json\<close>: the requests it sends, and what it returns or raises.
  \<^verbatim>\<open>raise_for_status\<close> raises a \<^verbatim>\<open>ClientResponseError\<close> (a \<^verbatim>\<open>ClientError\<close>) for a status
  of 400 or more and lets every other status through. The \<^verbatim>\<open>except\<close> clause turns
  \<^verbatim>\<open>TimeoutError\<close>, \<^verbatim>\<open>ClientError\<close> and \<^verbatim>\<open>ValueError\<close> into \<open>XToolApiError\<close>; a
  \<^verbatim>\<open>RecursionError\<close> of the decoder is none of them and passes through.
\<close>

definition get_json_io ::
  "client \<Rightarrow> 'f network \<Rightarrow> string \<Rightarrow> (string \<times> string) list \<Rightarrow> request list \<times> (pyerr + 'f json)" where
  "get_json_io c net path ps =
     (let u = base_url c @ path; req = \<lparr>url = u, params = ps\<rparr> in
      ([req],
       case net req of
         RequestTimeout \<Rightarrow> Inl (XToolApiError u TimedOut)
       | TransportFailure \<Rightarrow> Inl (XToolApiError u ClientFailure)
       | Response status b \<Rightarrow>
           if 400 \<le> status then Inl (XToolApiError u (BadStatus status))
           else (case b of
                   NotJson \<Rightarrow> Inl (XToolApiError u DecodeFailure)
                 | TooDeep \<Rightarrow> Inl RecursionError
                 | Json j \<Rightarrow> Inr j)
       | EmptyResponse status \<Rightarrow>
           if 400 \<le> status then Inl (XToolApiError u (BadStatus status))
           else Inr JNull))"

text \<open>What \<^verbatim>\<open>_get_json\<close> returns or raises.\<close>

definition get_json :: "client \<Rightarrow> 'f network \<Rightarrow> string \<Rightarrow> (string \<times> string) list \<Rightarrow> pyerr + 'f json" where
  "get_json c net path ps = snd (get_json_io c net path ps)"


definition async_get_machine_type :: "'f builtins \<Rightarrow> client \<Rightarrow> 'f network \<Rightarrow> pyerr + string" where
  "async_get_machine_type B c net =
     and_then (get_json c net ''/getmachinetype'' []) (\<lambda>payload.
     and_then (json_get payload ''type'' (JStr ''Unknown xTool'')) (\<lambda>t.
     Inr (py_str B t)))"


definition async_get_progress :: "client \<Rightarrow> 'f network \<Rightarrow> pyerr + 'f json" where
  "async_get_progress c net = get_json c net ''/progress'' []"

definition async_get_working_state :: "'f builtins \<Rightarrow> client \<Rightarrow> 'f network \<Rightarrow> pyerr + string" where
  "async_get_working_state B c net =
     and_then (get_json c net ''/system'' [(''action'', ''get_working_sta'')]) (\<lambda>payload.
     and_then (json_get payload ''working'' (JStr ''0'')) (\<lambda>w.
     Inr (py_str B w)))"

definition async_get_peripheral_status :: "client \<Rightarrow> 'f network \<Rightarrow> pyerr + 'f json" where
  "async_get_peripheral_status c net = get_json c net ''/peripherystatus'' []"

text \<open>\<^verbatim>\<open>async_cnc_action\<close>: the requests it sends, and what it returns or raises.\<close>

definition async_cnc_action_io :: "client \<Rightarrow> 'f network \<Rightarrow> string \<Rightarrow> request list \<times> (pyerr + bool)" where
  "async_cnc_action_io c net action =
     (case get_json_io c net ''/cnc/data'' [(''action'', action)] of
        (reqs, r) \<Rightarrow>
          (reqs,
           and_then r (\<lambda>payload.
           and_then (json_get payload ''result'' JNull) (\<lambda>x.
           Inr (x = JStr ''ok'')))))"

text \<open>What \<^verbatim>\<open>async_cnc_action\<close> returns or raises.\<close>

definition async_cnc_action :: "client \<Rightarrow> 'f network \<Rightarrow> string \<Rightarrow> pyerr + bool" where
  "async_cnc_action c net action = snd (async_cnc_action_io c net action)"

subsection \<open>The snapshot\<close>

text \<open>
  \<^verbatim>\<open>asyncio.gather\<close> without \<^verbatim>\<open>return_exceptions\<close>: the exception of the awaitable that
  fails first, in the order in which the event loop completes them, is the one raised.
  That order is an input, \<open>order\<close>: positions into the argument list, earliest first;
  positions it leaves out complete afterwards, in argument order.
\<close>

definition failure :: "pyerr + 'a \<Rightarrow> pyerr option" where
  "failure r = (case r of Inl e \<Rightarrow> Some e | Inr _ \<Rightarrow> None)"

definition first_failure :: "nat list \<Rightarrow> pyerr option list \<Rightarrow> pyerr option" where
  "first_failure order errs =
     (case find (\<lambda>i. i < length errs \<and> errs ! i \<noteq> None) (order @ [0..<length errs]) of
        None \<Rightarrow> None
      | Some i \<Rightarrow> errs ! i)"

definition gather4 ::
  "nat list \<Rightarrow> pyerr + 'a \<Rightarrow> pyerr + 'b \<Rightarrow> pyerr + 'c \<Rightarrow> pyerr + 'd \<Rightarrow> pyerr + ('a \<times> 'b \<times> 'c \<times> 'd)" where
  "gather4 order a b c d =
     (case first_failure order [failure a, failure b, failure c, failure d] of
        Some e \<Rightarrow> Inl e
      | None \<Rightarrow>
          and_then a (\<lambda>x. and_then b (\<lambda>y. and_then c (\<lambda>z. and_then d (\<lambda>u.
          Inr (x, y, z, u))))))"

text \<open>
  The snapshot \<^verbatim>\<open>dict\<close>: its items in insertion order. Its values are values of the
  same kinds as the decoded ones (\<^verbatim>\<open>float\<close>, \<^verbatim>\<open>int\<close>, \<^verbatim>\<open>str\<close>, and whatever the device
  sent as peripheral status).
\<close>

type_synonym 'f pydict = "(string \<times> 'f json) list"

definition async_get_snapshot :: "'f builtins \<Rightarrow> client \<Rightarrow> nat list \<Rightarrow> 'f network \<Rightarrow> pyerr + 'f pydict" where
  "async_get_snapshot B c order net =
     and_then
       (gather4 order
          (async_get_progress c net)
          (async_get_working_state B c net)
          (async_get_peripheral_status c net)
          (async_get_machine_type B c net))
       (\<lambda>(progress, working_state, peripheral, machine_type).
          and_then (json_get progress ''progress'' (JFloat (py_zero B))) (\<lambda>p0.
          and_then (py_float B p0) (\<lambda>p.
          and_then (json_get progress ''working'' (JInt 0)) (\<lambda>w0.
          and_then (py_int B w0) (\<lambda>w.
          and_then (json_get progress ''line'' (JInt 0)) (\<lambda>l0.
          and_then (py_int B l0) (\<lambda>l.
          Inr [(''progress'', JFloat p),
               (''working'', JInt w),
               (''line'', JInt l),
               (''working_state'', JStr working_state),
               (''machine_type'', JStr machine_type),
               (''peripheral_status'', peripheral)])))))))"

section \<open>The coordinator (coordinator.py)\<close>

definition WORKING_STATE_MAP :: "(string \<times> string) list" where
  "WORKING_STATE_MAP = [(''0'', ''idle''), (''1'', ''running_api''), (''2'', ''running_button'')]"

definition ATTR_WS_STATE :: string where
  "ATTR_WS_STATE = ''ws_state''"

record 'f coordinator =
  api :: client
  entry_id :: string
  use_websocket :: bool
  data :: "'f pydict option"

text \<open>
  \<^verbatim>\<open>WORKING_STATE_MAP.get(key, "unknown")\<close> for a key taken from the snapshot. A
  \<^verbatim>\<open>list\<close> or \<^verbatim>\<open>dict\<close> key cannot be hashed; any other key that is not one of the three
  strings gives the default.
\<close>

definition working_state_label :: "'f json \<Rightarrow> pyerr + string" where
  "working_state_label k =
     (case k of
        JStr s \<Rightarrow> Inr (case map_of WORKING_STATE_MAP s of Some l \<Rightarrow> l | None \<Rightarrow> ''unknown'')
      | JArr _ \<Rightarrow> Inl TypeError
      | JObj _ \<Rightarrow> Inl TypeError
      | _ \<Rightarrow> Inr ''unknown'')"

text \<open>
  \<^verbatim>\<open>_async_update_data\<close>: one poll. Only an \<open>XToolApiError\<close> is turned into
  \<open>UpdateFailed\<close>; the old push-channel field is copied into the new snapshot.
\<close>

definition async_update_data :: "'f builtins \<Rightarrow> 'f coordinator \<Rightarrow> nat list \<Rightarrow> 'f network \<Rightarrow> pyerr + 'f pydict" where
  "async_update_data B co order net =
     (case async_get_snapshot B (api co) order net of
        Inl (XToolApiError u cause) \<Rightarrow> Inl (UpdateFailed u cause)
      | Inl e \<Rightarrow> Inl e
      | Inr d \<Rightarrow>
          and_then
            (working_state_label
               (case map_of d ''working_state'' of Some v \<Rightarrow> v | None \<Rightarrow> JStr ''0''))
            (\<lambda>label.
               let d1 = AList.update ''working_state_label'' (JStr label) d in
               Inr (case data co of
                      None \<Rightarrow> d1
                    | Some old \<Rightarrow>
                        (case map_of old ATTR_WS_STATE of
                           None \<Rightarrow> d1
                         | Some w \<Rightarrow> AList.update ATTR_WS_STATE w d1))))"

text \<open>
  What the base class \<^verbatim>\<open>DataUpdateCoordinator\<close> of Home Assistant does with one poll:
  the result of a poll that returns becomes \<^verbatim>\<open>self.data\<close>, a poll that raises leaves
  \<^verbatim>\<open>self.data\<close> as it was.
\<close>

definition async_refresh :: "'f builtins \<Rightarrow> 'f coordinator \<Rightarrow> nat list \<Rightarrow> 'f network \<Rightarrow> 'f coordinator" where
  "async_refresh B co order net =
     (case async_update_data B co order net of
        Inl e \<Rightarrow> co
      | Inr d \<Rightarrow> co\<lparr>data := Some d\<rparr>)"

text \<open>
  \<^verbatim>\<open>_async_handle_ws_message\<close>; \<^verbatim>\<open>async_set_updated_data\<close> stores the \<^verbatim>\<open>dict\<close> it is given.
\<close>

definition async_handle_ws_message :: "'f coordinator \<Rightarrow> string \<Rightarrow> 'f coordinator" where
  "async_handle_ws_message co message =
     co\<lparr>data := Some (AList.update ATTR_WS_STATE (JStr message)
                        (case data co of Some d \<Rightarrow> d | None \<Rightarrow> []))\<rparr>"

text \<open>
  A run of the coordinator: polls and push messages. The event loop has one thread, and
  a poll reads \<^verbatim>\<open>self.data\<close> and returns without awaiting again once the snapshot has
  arrived, so each poll counts at the moment it merges.
\<close>

datatype 'f event =
    Poll "nat list" "'f network"
  | Push string

fun step :: "'f builtins \<Rightarrow> 'f coordinator \<Rightarrow> 'f event \<Rightarrow> 'f coordinator" where
  "step B co (Poll order net) = async_refresh B co order net"
| "step B co (Push message) = async_handle_ws_message co message"

definition run :: "'f builtins \<Rightarrow> 'f coordinator \<Rightarrow> 'f event list \<Rightarrow> 'f coordinator" where
  "run B co evs = foldl (step B) co evs"

section \<open>Discovery (api.py)\<close>

text \<open>
  What \<^verbatim>\<open>_discover_devices_sync\<close> meets, in the order in which it asks:
  \<open>request_id\<close> is the number \<^verbatim>\<open>random.randint\<close> draws, the flags say whether creating
  the socket, setting its two options, binding and sending go through, and
  \<open>received\<close> is the time window of \<^verbatim>\<open>max(timeout, 1)\<close> seconds, given by its content: it
  lists what each pass of the \<^verbatim>\<open>while\<close> loop meets before \<^verbatim>\<open>time.monotonic()\<close> reaches
  \<^verbatim>\<open>end_time\<close>, so the loop test fails when the list is used up.
  \<^item> \<open>Datagram b\<close>: \<^verbatim>\<open>recvfrom\<close> returns a datagram; \<open>b\<close> is what \<^verbatim>\<open>json.loads\<close> makes of
    its text (\<open>NotJson\<close> when it raises \<^verbatim>\<open>JSONDecodeError\<close>, which the loop catches,
    \<open>TooDeep\<close> when it raises \<^verbatim>\<open>RecursionError\<close>, which nothing catches);
  \<^item> \<open>RecvTimeout\<close>: \<^verbatim>\<open>recvfrom\<close> raises \<^verbatim>\<open>TimeoutError\<close>;
  \<^item> \<open>RecvOSError\<close>: \<^verbatim>\<open>settimeout\<close> or \<^verbatim>\<open>recvfrom\<close> raises another \<^verbatim>\<open>OSError\<close>;
  \<^item> \<open>DeadlinePassed\<close>: the clock passed \<^verbatim>\<open>end_time\<close> between the loop test and the
    next reading, so \<^verbatim>\<open>settimeout\<close> is given a negative number and raises \<^verbatim>\<open>ValueError\<close>.
\<close>

datatype 'f recv_event =
    Datagram "'f body"
  | RecvTimeout
  | RecvOSError
  | DeadlinePassed

record 'f discovery_env =
  request_id :: int
  socket_created :: bool
  broadcast_set :: bool
  reuseaddr_set :: bool
  bound :: bool
  sent :: bool
  received :: "'f recv_event list"

record discovered_device =
  dev_host :: string
  dev_name :: string
  dev_version :: string

text \<open>The \<^verbatim>\<open>dict\<close> \<^verbatim>\<open>found\<close>: its items, in insertion order.\<close>

type_synonym found = "(string \<times> discovered_device) list"

text \<open>The body of the loop after \<^verbatim>\<open>recvfrom\<close> has returned (api.py lines 140 to 156).\<close>

definition handle_datagram :: "'f builtins \<Rightarrow> int \<Rightarrow> found \<Rightarrow> 'f body \<Rightarrow> pyerr + found" where
  "handle_datagram B rid fnd b =
     (case b of
        NotJson \<Rightarrow> Inr fnd
      | TooDeep \<Rightarrow> Inl RecursionError
      | Json message \<Rightarrow>
          and_then (json_get message ''requestId'' JNull) (\<lambda>r.
          if py_eq_int B r rid then
            and_then (json_get message ''ip'' (JStr [])) (\<lambda>ip.
            let h = py_strip (py_str B ip) in
            if h = [] then Inr fnd
            else
              and_then (json_get message ''name'' (JStr ''xTool Laser'')) (\<lambda>n.
              and_then (json_get message ''version'' (JStr [])) (\<lambda>v.
              Inr (AList.update h
                     \<lparr>dev_host = h, dev_name = py_str B n, dev_version = py_str B v\<rparr> fnd))))
          else Inr fnd))"

fun receive_loop :: "'f builtins \<Rightarrow> int \<Rightarrow> found \<Rightarrow> 'f recv_event list \<Rightarrow> pyerr + found" where
  "receive_loop B rid fnd [] = Inr fnd"
| "receive_loop B rid fnd (RecvTimeout # evs) = Inr fnd"
| "receive_loop B rid fnd (RecvOSError # evs) = Inl OSError"
| "receive_loop B rid fnd (DeadlinePassed # evs) = Inl ValueError"
| "receive_loop B rid fnd (Datagram b # evs) =
     (case handle_datagram B rid fnd b of
        Inl e \<Rightarrow> Inl e
      | Inr fnd' \<Rightarrow> receive_loop B rid fnd' evs)"

text \<open>
  \<^verbatim>\<open>_discover_devices_sync\<close>. The socket is created before the \<^verbatim>\<open>try\<close> block; inside
  it an \<^verbatim>\<open>OSError\<close> ends the function with the empty list, and any other exception
  passes through \<^verbatim>\<open>finally\<close> to the caller.
\<close>

definition discover_devices_sync :: "'f builtins \<Rightarrow> 'f discovery_env \<Rightarrow> pyerr + discovered_device list" where
  "discover_devices_sync B env =
     (if socket_created env then
        if broadcast_set env \<and> reuseaddr_set env \<and> bound env \<and> sent env then
          (case receive_loop B (request_id env) [] (received env) of
             Inl OSError \<Rightarrow> Inr []
           | Inl e \<Rightarrow> Inl e
           | Inr fnd \<Rightarrow> Inr (map snd fnd))
        else Inr []
      else Inl OSError)"

definition async_discover_devices :: "'f builtins \<Rightarrow> 'f discovery_env \<Rightarrow> pyerr + discovered_device list" where
  "async_discover_devices B env = discover_devices_sync B env"

section \<open>The push channel task (api.py)\<close>

text \<open>
  The event loop, as far as the client sees it: the id the next task gets, and the tasks
  that are not done. \<^verbatim>\<open>create_task\<close> schedules a new task.
\<close>

record event_loop =
  next_task :: nat
  running :: "nat list"

definition create_task :: "event_loop \<Rightarrow> nat \<times> event_loop" where
  "create_task lp =
     (next_task lp, lp\<lparr>next_task := Suc (next_task lp), running := next_task lp # running lp\<rparr>)"

definition task_done :: "event_loop \<Rightarrow> nat \<Rightarrow> bool" where
  "task_done lp t = (t \<notin> set (running lp))"

definition async_start_ws :: "client \<times> event_loop \<Rightarrow> client \<times> event_loop" where
  "async_start_ws st =
     (case st of (c, lp) \<Rightarrow>
        if (case ws_task c of None \<Rightarrow> False | Some t \<Rightarrow> \<not> task_done lp t) then (c, lp)
        else (case create_task lp of (t, lp') \<Rightarrow> (c\<lparr>ws_stop := False, ws_task := Some t\<rparr>, lp')))"

text \<open>
  \<^verbatim>\<open>task.cancel()\<close> followed by \<^verbatim>\<open>await task\<close>: the caller goes on only when the
  task is done, so afterwards the task is not among the running ones.
\<close>

definition cancel_and_await :: "event_loop \<Rightarrow> nat \<Rightarrow> event_loop" where
  "cancel_and_await lp t = lp\<lparr>running := removeAll t (running lp)\<rparr>"

text \<open>
  \<^verbatim>\<open>async_stop_ws\<close>. \<open>ending t\<close> says how task \<open>t\<close> ends: \<open>None\<close> when it returns or ends
  by the cancellation (the \<^verbatim>\<open>CancelledError\<close> that \<^verbatim>\<open>contextlib.suppress\<close> swallows),
  \<open>Some e\<close> when it ends with another exception, which \<^verbatim>\<open>await\<close> raises in the caller
  before the task is forgotten. The result is the exception raised, if any, and the new
  state.
\<close>

definition async_stop_ws ::
  "(nat \<Rightarrow> pyerr option) \<Rightarrow> client \<times> event_loop \<Rightarrow> pyerr option \<times> client \<times> event_loop" where
  "async_stop_ws ending st =
     (case st of (c, lp) \<Rightarrow>
        (case ws_task c of
           None \<Rightarrow> (None, c\<lparr>ws_stop := True\<rparr>, lp)
         | Some t \<Rightarrow>
             (case ending t of
                Some e \<Rightarrow> (Some e, c\<lparr>ws_stop := True\<rparr>, cancel_and_await lp t)
              | None \<Rightarrow> (None, c\<lparr>ws_stop := True, ws_task := None\<rparr>, cancel_and_await lp t))))"

section \<open>The services (__init__.py) and the buttons (button.py)\<close>

text \<open>
  \<^verbatim>\<open>hass.data.get(DOMAIN)\<close>: \<open>None\<close> when the key is absent, else the items of the
  registry in insertion order.
\<close>

record 'f entry_item =
  item_api :: client
  item_coordinator :: "'f coordinator"

type_synonym 'f registry = "(string \<times> 'f entry_item) list option"

definition get_target_entries :: "'f registry \<Rightarrow> string option \<Rightarrow> pyerr + string list" where
  "get_target_entries reg eid =
     (case reg of
        None \<Rightarrow> Inl (HomeAssistantError ''No xTool integrations are loaded'')
      | Some entries \<Rightarrow>
          if entries = [] then Inl (HomeAssistantError ''No xTool integrations are loaded'')
          else (case eid of
                  None \<Rightarrow> Inr (map fst entries)
                | Some x \<Rightarrow>
                    if x = [] then Inr (map fst entries)
                    else if map_of entries x = None
                      then Inl (HomeAssistantError (''Unknown xTool entry_id: '' @ x))
                      else Inr [x]))"

text \<open>
  What a handler does to the outside: the GETs that \<^verbatim>\<open>_get_json\<close> sends for it, and the
  refresh it asks a coordinator for (\<^verbatim>\<open>async_request_refresh\<close>, named by the entry id).
\<close>

datatype effect =
    HttpGet request
  | RequestRefresh string

text \<open>
  The \<^verbatim>\<open>for\<close> loop of \<^verbatim>\<open>_async_handle_job_service\<close>. \<open>nets t\<close> is the network as it is
  when entry \<open>t\<close> is served. The result is what happened, and the exception that ended
  the loop, if one did.
\<close>

fun dispatch ::
  "(string \<Rightarrow> 'f network) \<Rightarrow> (string \<times> 'f entry_item) list \<Rightarrow> string \<Rightarrow> string list \<Rightarrow> effect list \<times> pyerr option" where
  "dispatch nets entries action [] = ([], None)"
| "dispatch nets entries action (t # ts) =
     (case map_of entries t of
        None \<Rightarrow> ([], Some KeyError)
      | Some item \<Rightarrow>
          (case async_cnc_action_io (item_api item) (nets t) action of
             (reqs, Inl e) \<Rightarrow> (map HttpGet reqs, Some e)
           | (reqs, Inr ok) \<Rightarrow>
               (case dispatch nets entries action ts of
                  (effs, err) \<Rightarrow> (map HttpGet reqs @ RequestRefresh t # effs, err))))"

definition async_handle_job_service ::
  "(string \<Rightarrow> 'f network) \<Rightarrow> 'f registry \<Rightarrow> string option \<Rightarrow> string \<Rightarrow> effect list \<times> pyerr option" where
  "async_handle_job_service nets reg eid action =
     (case get_target_entries reg eid of
        Inl e \<Rightarrow> ([], Some e)
      | Inr targets \<Rightarrow>
          (case reg of
             None \<Rightarrow> ([], Some KeyError)
           | Some entries \<Rightarrow> dispatch nets entries action targets))"





section \<open>Properties: vocabulary and example inputs\<close>

text \<open>The table of the specification, written as the specification words it.\<close>

definition spec_working_state_label :: "string \<Rightarrow> string" where
  "spec_working_state_label raw =
     (if raw = ''0'' then ''idle''
      else if raw = ''1'' then ''running_api''
      else if raw = ''2'' then ''running_button''
      else ''unknown'')"

text \<open>The push-event field of the coordinator's current snapshot, if there is one.\<close>

definition ws_field :: "'f coordinator \<Rightarrow> 'f json option" where
  "ws_field co = (case data co of None \<Rightarrow> None | Some d \<Rightarrow> map_of d ATTR_WS_STATE)"

text \<open>The newest push message of a run, if the run has one.\<close>

fun last_push :: "'f event list \<Rightarrow> string option" where
  "last_push [] = None"
| "last_push (Push m # evs) = (case last_push evs of Some m' \<Rightarrow> Some m' | None \<Rightarrow> Some m)"
| "last_push (Poll order net # evs) = last_push evs"







text \<open>
  Example inputs. In the examples the floats are the whole-numbered ones, written as
  integers; \<open>example_builtins\<close> is only applied to numbers.
\<close>

definition example_builtins :: "int builtins" where
  "example_builtins =
     \<lparr>py_float = (\<lambda>j. case j of JInt n \<Rightarrow> Inr n | JFloat x \<Rightarrow> Inr x | _ \<Rightarrow> Inl TypeError),
      py_int = (\<lambda>j. case j of JInt n \<Rightarrow> Inr n | JFloat x \<Rightarrow> Inr x | _ \<Rightarrow> Inl TypeError),
      py_repr = (\<lambda>j. ''?''),
      py_zero = 0,
      py_float_eq_int = (\<lambda>x n. x = n),
      py_float_bool = (\<lambda>x. x \<noteq> 0)\<rparr>"

definition example_client :: client where
  "example_client = \<lparr>host = ''10.0.0.5'', ws_task = None, ws_stop = False\<rparr>"

definition example_coordinator :: "int coordinator" where
  "example_coordinator = \<lparr>api = example_client, entry_id = ''e1'', use_websocket = True, data = None\<rparr>"

text \<open>A device described by its answers to the four requests of a snapshot.\<close>

definition snapshot_net ::
  "client \<Rightarrow> 'f http_response \<Rightarrow> 'f http_response \<Rightarrow> 'f http_response \<Rightarrow> 'f http_response \<Rightarrow> 'f network" where
  "snapshot_net c p w s m r =
     (if url r = base_url c @ ''/progress'' then p
      else if url r = base_url c @ ''/system'' then w
      else if url r = base_url c @ ''/peripherystatus'' then s
      else m)"

definition good_progress :: "int http_response" where
  "good_progress = Response 200 (Json (JObj [(''progress'', JFloat 45), (''working'', JInt 120000), (''line'', JInt 30)]))"

definition good_working_state :: "int http_response" where
  "good_working_state = Response 200 (Json (JObj [(''working'', JStr ''1'')]))"

definition good_peripheral :: "int http_response" where
  "good_peripheral = Response 200 (Json (JObj [(''sdCard'', JInt 1)]))"

definition good_machine_type :: "int http_response" where
  "good_machine_type = Response 200 (Json (JObj [(''type'', JStr ''xTool D1'')]))"

definition good_net :: "int network" where
  "good_net = snapshot_net example_client good_progress good_working_state good_peripheral good_machine_type"

definition good_snapshot :: "int pydict" where
  "good_snapshot =
     [(''progress'', JFloat 45), (''working'', JInt 120000), (''line'', JInt 30),
      (''working_state'', JStr ''1''), (''machine_type'', JStr ''xTool D1''),
      (''peripheral_status'', JObj [(''sdCard'', JInt 1)]),
      (''working_state_label'', JStr ''running_api'')]"

text \<open>As \<open>good_net\<close>, but the device reports the working state \<^verbatim>\<open>"9"\<close>.\<close>

definition unknown_state_net :: "int network" where
  "unknown_state_net =
     snapshot_net example_client good_progress (Response 200 (Json (JObj [(''working'', JStr ''9'')])))
       good_peripheral good_machine_type"

text \<open>The device is unreachable: every request times out.\<close>

definition down_net :: "int network" where
  "down_net r = RequestTimeout"





text \<open>Discovery: a datagram that fails to decode, or decodes to a JSON object.\<close>

definition object_or_undecodable :: "'f body \<Rightarrow> bool" where
  "object_or_undecodable b =
     (case b of NotJson \<Rightarrow> True | TooDeep \<Rightarrow> False | Json (JObj kvs) \<Rightarrow> True | Json _ \<Rightarrow> False)"

definition field :: "(string \<times> 'f json) list \<Rightarrow> string \<Rightarrow> 'f json \<Rightarrow> 'f json" where
  "field kvs k d = (case map_of kvs k of Some v \<Rightarrow> v | None \<Rightarrow> d)"

text \<open>
  The device a datagram advertises, in the words of the specification: none when the
  datagram fails to decode, when its \<^verbatim>\<open>requestId\<close> does not match, or when its \<^verbatim>\<open>ip\<close>
  field is empty.
\<close>

definition spec_advertised :: "'f builtins \<Rightarrow> int \<Rightarrow> 'f body \<Rightarrow> discovered_device option" where
  "spec_advertised B rid b =
     (case b of
        Json (JObj kvs) \<Rightarrow>
          if py_eq_int B (field kvs ''requestId'' JNull) rid
             \<and> py_strip (py_str B (field kvs ''ip'' (JStr []))) \<noteq> []
          then Some \<lparr>dev_host = py_strip (py_str B (field kvs ''ip'' (JStr []))),
                     dev_name = py_str B (field kvs ''name'' (JStr ''xTool Laser'')),
                     dev_version = py_str B (field kvs ''version'' (JStr []))\<rparr>
          else None
      | _ \<Rightarrow> None)"

text \<open>The last device advertised for a host by a sequence of datagrams.\<close>

definition spec_latest :: "'f builtins \<Rightarrow> int \<Rightarrow> 'f body list \<Rightarrow> string \<Rightarrow> discovered_device option" where
  "spec_latest B rid bs h =
     (case filter (\<lambda>d. dev_host d = h) (List.map_filter (spec_advertised B rid) bs) of
        [] \<Rightarrow> None
      | d # ds \<Rightarrow> Some (last (d # ds)))"

definition absorb :: "found \<Rightarrow> discovered_device option \<Rightarrow> found" where
  "absorb fnd a = (case a of None \<Rightarrow> fnd | Some d \<Rightarrow> AList.update (dev_host d) d fnd)"

text \<open>Example datagrams and sockets.\<close>

definition advert :: "int \<Rightarrow> string \<Rightarrow> string \<Rightarrow> int body" where
  "advert rid ip name =
     Json (JObj [(''requestId'', JInt rid), (''ip'', JStr ip), (''name'', JStr name), (''version'', JStr ''1.0'')])"

definition example_datagrams :: "int body list" where
  "example_datagrams =
     [advert 123456 ''10.0.0.5'' ''first'',
      NotJson,
      advert 999999 ''10.0.0.9'' ''other request'',
      advert 123456 [] ''no address'',
      advert 123456 ''10.0.0.7'' ''neighbour'',
      advert 123456 ''10.0.0.5'' ''second'']"

definition listening_env :: "int recv_event list \<Rightarrow> int discovery_env" where
  "listening_env evs =
     \<lparr>request_id = 123456, socket_created = True, broadcast_set = True, reuseaddr_set = True,
      bound = True, sent = True, received = evs\<rparr>"

definition unbound_env :: "int discovery_env" where
  "unbound_env = (listening_env [])\<lparr>bound := False\<rparr>"

definition no_socket_env :: "int discovery_env" where
  "no_socket_env = (listening_env [])\<lparr>socket_created := False\<rparr>"

text \<open>
  Services. The request of the specification for a control action: a GET of
  \<^verbatim>\<open>/cnc/data\<close> on the device of the client, with the parameter \<^verbatim>\<open>action\<close>. Then what
  serving the given entries does when every request returns, and whether the request
  for an entry returns.
\<close>

definition cnc_request :: "client \<Rightarrow> string \<Rightarrow> request" where
  "cnc_request c action = \<lparr>url = base_url c @ ''/cnc/data'', params = [(''action'', action)]\<rparr>"

definition served :: "(string \<times> 'f entry_item) list \<Rightarrow> string \<Rightarrow> string list \<Rightarrow> effect list" where
  "served entries action ts =
     concat (map (\<lambda>t. case map_of entries t of
                          None \<Rightarrow> []
                        | Some item \<Rightarrow> [HttpGet (cnc_request (item_api item) action), RequestRefresh t]) ts)"

definition request_ok :: "(string \<Rightarrow> 'f network) \<Rightarrow> (string \<times> 'f entry_item) list \<Rightarrow> string \<Rightarrow> string \<Rightarrow> bool" where
  "request_ok nets entries action t =
     (case map_of entries t of
        None \<Rightarrow> False
      | Some item \<Rightarrow> (case async_cnc_action (item_api item) (nets t) action of Inl e \<Rightarrow> False | Inr ok \<Rightarrow> True))"

text \<open>Two loaded entries; a device that answers every request with \<^verbatim>\<open>{"result": "ok"}\<close>.\<close>

definition second_client :: client where
  "second_client = \<lparr>host = ''10.0.0.6'', ws_task = None, ws_stop = False\<rparr>"

definition example_registry :: "int registry" where
  "example_registry =
     Some [(''e1'', \<lparr>item_api = example_client, item_coordinator = example_coordinator\<rparr>),
           (''e2'', \<lparr>item_api = second_client,
                     item_coordinator = \<lparr>api = second_client, entry_id = ''e2'', use_websocket = True, data = None\<rparr>\<rparr>)]"

definition ok_net :: "int network" where
  "ok_net r = Response 200 (Json (JObj [(''result'', JStr ''ok'')]))"

definition first_down_nets :: "string \<Rightarrow> int network" where
  "first_down_nets t = (if t = ''e1'' then down_net else ok_net)"

definition idle_loop :: event_loop where
  "idle_loop = \<lparr>next_task = 0, running = []\<rparr>"

section \<open>Proofs\<close>

subsection \<open>Gathering the four sub-calls\<close>



lemma gather4_Inr:
  "gather4 order a b c d = Inr r \<Longrightarrow> a = Inr (fst r) \<and> b = Inr (fst (snd r)) \<and> c = Inr (fst (snd (snd r))) \<and> d = Inr (snd (snd (snd r)))"
  unfolding gather4_def and_then_def
  by (auto split: option.splits sum.splits)




lemma async_get_snapshot_shape:
  "async_get_snapshot B c order net = Inr s \<Longrightarrow>
     \<exists>p w l ws mt per. s = [(''progress'', JFloat p), (''working'', JInt w), (''line'', JInt l),
        (''working_state'', JStr ws), (''machine_type'', JStr mt), (''peripheral_status'', per)]"
  unfolding async_get_snapshot_def and_then_def
  by (auto split: sum.splits prod.splits)




subsection \<open>The label and the push field\<close>

lemma label_table: "(case map_of WORKING_STATE_MAP raw of Some l \<Rightarrow> l | None \<Rightarrow> ''unknown'') = spec_working_state_label raw"
  by (simp add: WORKING_STATE_MAP_def spec_working_state_label_def)

lemma async_update_data_Inr:
  assumes "async_update_data B co order net = Inr d"
  shows "\<exists>s raw. async_get_snapshot B (api co) order net = Inr s
          \<and> map_of s ''working_state'' = Some (JStr raw)
          \<and> map_of s ATTR_WS_STATE = None
          \<and> d = (let d1 = AList.update ''working_state_label'' (JStr (spec_working_state_label raw)) s in
                 case ws_field co of None \<Rightarrow> d1 | Some w \<Rightarrow> AList.update ATTR_WS_STATE w d1)"
proof -
  from assms obtain s where s: "async_get_snapshot B (api co) order net = Inr s"
    unfolding async_update_data_def by (auto split: sum.splits pyerr.splits)
  from async_get_snapshot_shape[OF s] obtain p w l raw mt per where
    shape: "s = [(''progress'', JFloat p), (''working'', JInt w), (''line'', JInt l),
        (''working_state'', JStr raw), (''machine_type'', JStr mt), (''peripheral_status'', per)]"
    by blast
  have ws: "map_of s ''working_state'' = Some (JStr raw)" by (simp add: shape)
  have no: "map_of s ATTR_WS_STATE = None" by (simp add: shape ATTR_WS_STATE_def)
  have "d = (let d1 = AList.update ''working_state_label'' (JStr (spec_working_state_label raw)) s in
                 case ws_field co of None \<Rightarrow> d1 | Some w \<Rightarrow> AList.update ATTR_WS_STATE w d1)"
    using assms unfolding async_update_data_def
    by (simp add: s ws working_state_label_def and_then_def label_table ws_field_def Let_def split: option.splits)
  with s ws no show ?thesis by blast
qed

lemma ws_field_poll: "ws_field (async_refresh B co order net) = ws_field co"
proof (cases "async_update_data B co order net")
  case (Inl e)
  then show ?thesis by (simp add: async_refresh_def)
next
  case (Inr d)
  from async_update_data_Inr[OF Inr] obtain s raw where
    no: "map_of s ATTR_WS_STATE = None" and
    d: "d = (let d1 = AList.update ''working_state_label'' (JStr (spec_working_state_label raw)) s in
                 case ws_field co of None \<Rightarrow> d1 | Some w \<Rightarrow> AList.update ATTR_WS_STATE w d1)"
    by blast
  have "map_of d ATTR_WS_STATE = ws_field co"
    using no by (simp add: d Let_def update_conv' ATTR_WS_STATE_def split: option.splits)
  then show ?thesis by (simp add: async_refresh_def Inr ws_field_def)
qed

lemma ws_field_push: "ws_field (async_handle_ws_message co m) = Some (JStr m)"
  by (simp add: async_handle_ws_message_def ws_field_def update_conv')

lemma ws_field_run_eq:
  "ws_field (run B co evs) = (case last_push evs of Some m \<Rightarrow> Some (JStr m) | None \<Rightarrow> ws_field co)"
  unfolding run_def
proof (induction evs arbitrary: co)
  case Nil
  then show ?case by simp
next
  case (Cons ev evs)
  show ?case
  proof (cases ev)
    case (Poll order net)
    then show ?thesis using Cons.IH[of "async_refresh B co order net"]
      by (simp add: ws_field_poll split: option.splits)
  next
    case (Push m)
    then show ?thesis using Cons.IH[of "async_handle_ws_message co m"]
      by (simp add: ws_field_push split: option.splits)
  qed
qed

subsection \<open>Failed requests\<close>


lemma get_json_io_requests:
  "fst (get_json_io c net path ps) = [\<lparr>url = base_url c @ path, params = ps\<rparr>]"
  by (simp add: get_json_io_def Let_def)

lemma async_cnc_action_io_eq:
  "async_cnc_action_io c net action = ([cnc_request c action], async_cnc_action c net action)"
  by (simp add: async_cnc_action_def async_cnc_action_io_def get_json_io_def cnc_request_def Let_def)








subsection \<open>Discovery\<close>

lemma handle_datagram_spec:
  "object_or_undecodable b \<Longrightarrow>
   handle_datagram B rid fnd b =
     Inr (case spec_advertised B rid b of None \<Rightarrow> fnd | Some d \<Rightarrow> AList.update (dev_host d) d fnd)"
  unfolding object_or_undecodable_def handle_datagram_def spec_advertised_def field_def and_then_def
  by (auto split: body.splits json.splits simp: Let_def)

lemma receive_loop_datagrams:
  "\<forall>b \<in> set bs. object_or_undecodable b \<Longrightarrow> stop = [] \<or> stop = [RecvTimeout] \<Longrightarrow>
   receive_loop B rid fnd (map Datagram bs @ stop) = Inr (foldl absorb fnd (map (spec_advertised B rid) bs))"
proof (induction bs arbitrary: fnd)
  case Nil
  then show ?case by auto
next
  case (Cons b bs)
  then show ?case by (simp add: handle_datagram_spec absorb_def)
qed

lemma foldl_absorb_distinct:
  "distinct (map fst fnd) \<Longrightarrow> distinct (map fst (foldl absorb fnd as))"
  by (induction as arbitrary: fnd) (auto simp: absorb_def distinct_update split: option.splits)

lemma foldl_absorb_map_of:
  "map_of (foldl absorb fnd (map f bs)) h =
     (case filter (\<lambda>d. dev_host d = h) (List.map_filter f bs) of
        [] \<Rightarrow> map_of fnd h
      | d # ds \<Rightarrow> Some (last (d # ds)))"
proof (induction bs arbitrary: fnd)
  case Nil
  then show ?case by simp
next
  case (Cons b bs)
  show ?case
  proof (cases "f b")
    case None
    then show ?thesis using Cons.IH[of fnd] by (simp add: absorb_def)
  next
    case (Some d)
    then show ?thesis using Cons.IH[of "AList.update (dev_host d) d fnd"]
      by (auto simp: absorb_def update_conv' split: list.splits)
  qed
qed

lemma spec_latest_host: "spec_latest B rid bs h = Some d \<Longrightarrow> dev_host d = h"
proof -
  assume a: "spec_latest B rid bs h = Some d"
  let ?ds = "filter (\<lambda>d. dev_host d = h) (List.map_filter (spec_advertised B rid) bs)"
  from a have ne: "?ds \<noteq> []" and l: "d = last ?ds"
    unfolding spec_latest_def by (auto split: list.splits)
  from ne have "last ?ds \<in> set ?ds" by (rule last_in_set)
  with l show ?thesis by simp
qed

lemma found_latest:
  "map_of (foldl absorb [] (map (spec_advertised B rid) bs)) h = spec_latest B rid bs h"
  unfolding spec_latest_def by (simp add: foldl_absorb_map_of split: list.splits)

lemma discover_datagrams:
  assumes env: "socket_created env" "broadcast_set env" "reuseaddr_set env" "bound env" "sent env"
    and rec: "received env = map Datagram bs @ stop" and stop: "stop = [] \<or> stop = [RecvTimeout]"
    and ok: "\<forall>b \<in> set bs. object_or_undecodable b"
  shows "\<exists>devs. discover_devices_sync B env = Inr devs
           \<and> distinct (map dev_host devs)
           \<and> (\<forall>d. d \<in> set devs \<longleftrightarrow> (\<exists>h. spec_latest B (request_id env) bs h = Some d))"
proof -
  let ?rid = "request_id env"
  let ?fnd = "foldl absorb [] (map (spec_advertised B ?rid) bs)"
  have loop: "receive_loop B ?rid [] (received env) = Inr ?fnd"
    unfolding rec using receive_loop_datagrams[OF ok stop] .
  have res: "discover_devices_sync B env = Inr (map snd ?fnd)"
    unfolding discover_devices_sync_def by (simp add: env loop)
  have dist: "distinct (map fst ?fnd)"
    by (rule foldl_absorb_distinct) simp
  have item: "(h, d) \<in> set ?fnd \<longleftrightarrow> spec_latest B ?rid bs h = Some d" for h d
    using map_of_eq_Some_iff[OF dist, of h d] found_latest[of B ?rid bs h] by simp
  have hosts: "map dev_host (map snd ?fnd) = map fst ?fnd"
  proof -
    have "\<forall>p \<in> set ?fnd. dev_host (snd p) = fst p"
    proof
      fix p assume "p \<in> set ?fnd"
      then have "(fst p, snd p) \<in> set ?fnd" by simp
      then have "spec_latest B ?rid bs (fst p) = Some (snd p)" using item by blast
      then show "dev_host (snd p) = fst p" by (rule spec_latest_host)
    qed
    then show ?thesis by simp
  qed
  have mem: "d \<in> set (map snd ?fnd) \<longleftrightarrow> (\<exists>h. spec_latest B ?rid bs h = Some d)" for d
    using item by force
  from res dist hosts mem show ?thesis by (metis)
qed

lemma receive_loop_os_error:
  "\<forall>b \<in> set bs. object_or_undecodable b \<Longrightarrow>
   receive_loop B rid fnd (map Datagram bs @ RecvOSError # rest) = Inl OSError"
  by (induction bs arbitrary: fnd) (simp_all add: handle_datagram_spec)

lemma discover_never_os_error: "socket_created env \<Longrightarrow> discover_devices_sync B env \<noteq> Inl OSError"
  unfolding discover_devices_sync_def
  by (auto split: sum.splits pyerr.splits)

subsection \<open>Services\<close>

lemma served_Cons:
  "map_of entries t = Some item \<Longrightarrow>
   served entries action (t # ts)
     = HttpGet (cnc_request (item_api item) action) # RequestRefresh t # served entries action ts"
  by (simp add: served_def)

lemma request_ok_iff:
  "map_of entries t = Some item \<Longrightarrow>
   request_ok nets entries action t \<longleftrightarrow> (\<exists>ok. async_cnc_action (item_api item) (nets t) action = Inr ok)"
  by (cases "async_cnc_action (item_api item) (nets t) action") (simp_all add: request_ok_def)

lemma request_ok_entry: "request_ok nets entries action t \<Longrightarrow> \<exists>item. map_of entries t = Some item"
  by (cases "map_of entries t") (simp_all add: request_ok_def)

lemma dispatch_Cons:
  "map_of entries t = Some item \<Longrightarrow>
   dispatch nets entries action (t # ts) =
     (case async_cnc_action (item_api item) (nets t) action of
        Inl e \<Rightarrow> ([HttpGet (cnc_request (item_api item) action)], Some e)
      | Inr ok \<Rightarrow>
          (case dispatch nets entries action ts of
             (effs, err) \<Rightarrow>
               (HttpGet (cnc_request (item_api item) action) # RequestRefresh t # effs, err)))"
  by (simp add: async_cnc_action_io_eq split: sum.splits)


lemma dispatch_all_ok:
  "list_all (request_ok nets entries action) ts \<Longrightarrow> dispatch nets entries action ts = (served entries action ts, None)"
proof (induction ts)
  case Nil
  then show ?case by (simp add: served_def)
next
  case (Cons t ts)
  from Cons.prems have t: "request_ok nets entries action t" and ts: "list_all (request_ok nets entries action) ts"
    by simp_all
  from request_ok_entry[OF t] obtain item where item: "map_of entries t = Some item" by blast
  from t item obtain ok where ok: "async_cnc_action (item_api item) (nets t) action = Inr ok"
    by (auto simp: request_ok_iff)
  show ?case
    unfolding dispatch_Cons[OF item] by (simp add: ok Cons.IH[OF ts] served_Cons[OF item])
qed

lemma dispatch_first_failure:
  "list_all (request_ok nets entries action) pre \<Longrightarrow> map_of entries t = Some item \<Longrightarrow>
   async_cnc_action (item_api item) (nets t) action = Inl e \<Longrightarrow>
   dispatch nets entries action (pre @ t # post)
     = (served entries action pre @ [HttpGet (cnc_request (item_api item) action)], Some e)"
proof (induction pre)
  case Nil
  show ?case
    unfolding append_Nil dispatch_Cons[OF Nil.prems(2)] by (simp add: Nil.prems(3) served_def)
next
  case (Cons p pre)
  from Cons.prems have p: "request_ok nets entries action p" and pre: "list_all (request_ok nets entries action) pre"
    by simp_all
  from request_ok_entry[OF p] obtain pitem where pitem: "map_of entries p = Some pitem" by blast
  from p pitem obtain ok where ok: "async_cnc_action (item_api pitem) (nets p) action = Inr ok"
    by (auto simp: request_ok_iff)
  show ?case
    unfolding append_Cons dispatch_Cons[OF pitem]
    by (simp add: ok Cons.IH[OF pre Cons.prems(2) Cons.prems(3)] served_Cons[OF pitem])
qed


lemma get_target_entries_omitted:
  "entries \<noteq> [] \<Longrightarrow> eid = None \<or> eid = Some [] \<Longrightarrow> get_target_entries (Some entries) eid = Inr (map fst entries)"
  by (auto simp: get_target_entries_def)

lemma get_target_entries_raises:
  "(\<exists>e. get_target_entries reg eid = Inl e) \<longleftrightarrow>
     (reg = None \<or> reg = Some [] \<or> (\<exists>entries x. reg = Some entries \<and> eid = Some x \<and> x \<noteq> [] \<and> map_of entries x = None))"
  by (auto simp: get_target_entries_def split: option.splits)



lemma registry_entries_found: "list_all (\<lambda>t. map_of entries t \<noteq> None) (map fst entries)"
  by (auto simp: list_all_iff weak_map_of_SomeI)

subsection \<open>The poll after the snapshot, and the sub-call that fails first\<close>

lemma async_update_data_of_snapshot:
  assumes s: "async_get_snapshot B (api co) order net = Inr s"
  shows "\<exists>raw. map_of s ''working_state'' = Some (JStr raw)
          \<and> async_get_working_state B (api co) net = Inr raw
          \<and> async_update_data B co order net =
               Inr (let d1 = AList.update ''working_state_label'' (JStr (spec_working_state_label raw)) s in
                    case ws_field co of None \<Rightarrow> d1 | Some w \<Rightarrow> AList.update ATTR_WS_STATE w d1)"
proof -
  from s obtain r where g: "gather4 order (async_get_progress (api co) net)
      (async_get_working_state B (api co) net) (async_get_peripheral_status (api co) net)
      (async_get_machine_type B (api co) net) = Inr r"
    unfolding async_get_snapshot_def and_then_def by (auto split: sum.splits)
  from gather4_Inr[OF g] have w: "async_get_working_state B (api co) net = Inr (fst (snd r))" by simp
  from s g have raw: "map_of s ''working_state'' = Some (JStr (fst (snd r)))"
    unfolding async_get_snapshot_def and_then_def by (auto split: sum.splits prod.splits)
  have "async_update_data B co order net =
               Inr (let d1 = AList.update ''working_state_label'' (JStr (spec_working_state_label (fst (snd r)))) s in
                    case ws_field co of None \<Rightarrow> d1 | Some w \<Rightarrow> AList.update ATTR_WS_STATE w d1)"
    unfolding async_update_data_def
    by (simp add: s raw working_state_label_def and_then_def label_table ws_field_def Let_def split: option.splits)
  with w raw show ?thesis by blast
qed









section \<open>The claims\<close>

text \<open>
  C4. Whenever \<^verbatim>\<open>async_get_snapshot\<close> returns, the poll returns too, and the merged
  snapshot holds, under \<^verbatim>\<open>working_state\<close>, the raw working-state string that
  \<^verbatim>\<open>async_get_working_state\<close> returned and, under \<^verbatim>\<open>working_state_label\<close>, that string
  mapped through the table "0" to "idle", "1" to "running_api", "2" to
  "running_button", every other value to "unknown"; the merged snapshot is the
  coordinator's new snapshot.
\<close>

theorem working_state_label_mapping:
  assumes "async_get_snapshot B (api co) order net = Inr s"
  shows "\<exists>raw d. async_get_working_state B (api co) net = Inr raw
            \<and> map_of s ''working_state'' = Some (JStr raw)
            \<and> async_update_data B co order net = Inr d
            \<and> map_of d ''working_state'' = Some (JStr raw)
            \<and> map_of d ''working_state_label'' = Some (JStr (spec_working_state_label raw))
            \<and> data (async_refresh B co order net) = Some d"
proof -
  from async_update_data_of_snapshot[OF assms] obtain raw d where
    w: "async_get_working_state B (api co) net = Inr raw" and
    s: "map_of s ''working_state'' = Some (JStr raw)" and
    u: "async_update_data B co order net = Inr d" and
    d: "d = (let d1 = AList.update ''working_state_label'' (JStr (spec_working_state_label raw)) s in
                 case ws_field co of None \<Rightarrow> d1 | Some w \<Rightarrow> AList.update ATTR_WS_STATE w d1)"
    by blast
  have 1: "map_of d ''working_state'' = Some (JStr raw)"
    by (simp add: d s Let_def update_conv' ATTR_WS_STATE_def split: option.splits)
  have 2: "map_of d ''working_state_label'' = Some (JStr (spec_working_state_label raw))"
    by (simp add: d Let_def update_conv' ATTR_WS_STATE_def split: option.splits)
  have 3: "data (async_refresh B co order net) = Some d"
    by (simp add: async_refresh_def u)
  from w s u 1 2 3 show ?thesis by blast
qed

theorem working_state_label_mapping_witness:
  "async_get_snapshot example_builtins (api example_coordinator) [] unknown_state_net
     = Inr [(''progress'', JFloat 45), (''working'', JInt 120000), (''line'', JInt 30),
            (''working_state'', JStr ''9''), (''machine_type'', JStr ''xTool D1''),
            (''peripheral_status'', JObj [(''sdCard'', JInt 1)])]
   \<and> (\<exists>d. async_update_data example_builtins example_coordinator [] unknown_state_net = Inr d
          \<and> map_of d ''working_state'' = Some (JStr ''9'')
          \<and> map_of d ''working_state_label'' = Some (JStr ''unknown'')
          \<and> data (async_refresh example_builtins example_coordinator [] unknown_state_net) = Some d)
   \<and> async_update_data example_builtins example_coordinator [] good_net = Inr good_snapshot"
proof -
  have h: "async_get_snapshot example_builtins (api example_coordinator) [] unknown_state_net
     = Inr [(''progress'', JFloat 45), (''working'', JInt 120000), (''line'', JInt 30),
            (''working_state'', JStr ''9''), (''machine_type'', JStr ''xTool D1''),
            (''peripheral_status'', JObj [(''sdCard'', JInt 1)])]"
    by code_simp
  have g: "async_update_data example_builtins example_coordinator [] good_net = Inr good_snapshot"
    by code_simp
  have l: "spec_working_state_label ''9'' = ''unknown''" by code_simp
  from working_state_label_mapping[OF h] obtain raw d where
    r: "map_of ([(''progress'', JFloat 45), (''working'', JInt 120000), (''line'', JInt 30),
            (''working_state'', JStr ''9''), (''machine_type'', JStr ''xTool D1''),
            (''peripheral_status'', JObj [(''sdCard'', JInt 1)])] :: int pydict) ''working_state''
          = Some (JStr raw)"
    and d: "async_update_data example_builtins example_coordinator [] unknown_state_net = Inr d"
      "map_of d ''working_state'' = Some (JStr raw)"
      "map_of d ''working_state_label'' = Some (JStr (spec_working_state_label raw))"
      "data (async_refresh example_builtins example_coordinator [] unknown_state_net) = Some d"
    by blast
  from r have "raw = ''9''" by simp
  with d l h g show ?thesis by auto
qed

text \<open>
  C2. The push-event field is sticky. A push message sets the field; a poll, whether it
  returns or raises, leaves the field as it was; so after any run of polls and push
  messages the field holds the newest push message of the run, and the field of the
  start when the run has none.
\<close>

theorem push_field_sticky:
  "ws_field (async_handle_ws_message co m) = Some (JStr m)
   \<and> ws_field (async_refresh B co order net) = ws_field co
   \<and> ws_field (run B co evs) = (case last_push evs of Some m' \<Rightarrow> Some (JStr m') | None \<Rightarrow> ws_field co)"
  using ws_field_push ws_field_poll ws_field_run_eq by blast

theorem push_field_sticky_witness:
  "ws_field (run example_builtins example_coordinator [Poll [] good_net, Push ''M'', Poll [] good_net])
     = Some (JStr ''M'')"
  using push_field_sticky[of example_coordinator "''M''" example_builtins "[]" good_net
      "[Poll [] good_net, Push ''M'', Poll [] good_net]"]
  by simp









text \<open>
  C6. A datagram that decodes to a JSON array ends \<^verbatim>\<open>_discover_devices_sync\<close> with an
  \<^verbatim>\<open>AttributeError\<close> and without a list, although a device was found before it; in its
  place a datagram that fails to decode, or one with another request id, is skipped
  and the device found is returned.
\<close>

theorem discovery_non_object_datagram_raises:
  "discover_devices_sync example_builtins
     (listening_env [Datagram (advert 123456 ''10.0.0.5'' ''first''), Datagram (Json (JArr [])), RecvTimeout])
     = Inl AttributeError
   \<and> discover_devices_sync example_builtins
     (listening_env [Datagram (advert 123456 ''10.0.0.5'' ''first''), Datagram NotJson, RecvTimeout])
     = Inr [\<lparr>dev_host = ''10.0.0.5'', dev_name = ''first'', dev_version = ''1.0''\<rparr>]
   \<and> discover_devices_sync example_builtins
     (listening_env [Datagram (advert 123456 ''10.0.0.5'' ''first''),
                     Datagram (advert 999999 ''10.0.0.9'' ''other request''), RecvTimeout])
     = Inr [\<lparr>dev_host = ''10.0.0.5'', dev_name = ''first'', dev_version = ''1.0''\<rparr>]"
  by code_simp

text \<open>
  C7. When the socket cannot be created, \<^verbatim>\<open>_discover_devices_sync\<close> raises the
  \<^verbatim>\<open>OSError\<close> to its caller; when binding fails, or when \<^verbatim>\<open>recvfrom\<close> raises an
  \<^verbatim>\<open>OSError\<close> after a device was found, it returns the empty list.
\<close>

theorem discovery_socket_creation_raises:
  "discover_devices_sync example_builtins no_socket_env = Inl OSError
   \<and> discover_devices_sync example_builtins unbound_env = Inr []
   \<and> discover_devices_sync example_builtins
        (listening_env [Datagram (advert 123456 ''10.0.0.5'' ''first''), RecvOSError]) = Inr []"
  by code_simp

text \<open>
  C8. \<^verbatim>\<open>async_stop_ws\<close> sets the stop signal and, when the client holds a task, cancels
  and awaits it, so that in every state of the client and of the event loop the task
  the client held is done when the call ends, and no other task is touched. When the
  call returns, the client holds no task, a second stop changes nothing, and a start
  that follows creates a new task. The call raises only the exception the awaited task
  ended with, if that is not the cancellation.
\<close>

theorem stop_ws_joins_task:
  assumes "async_stop_ws ending (c, lp) = (err, c', lp')"
  shows "ws_stop c'
       \<and> (\<forall>t. ws_task c = Some t \<longrightarrow> task_done lp' t)
       \<and> running lp' = (case ws_task c of None \<Rightarrow> running lp | Some t \<Rightarrow> removeAll t (running lp))
       \<and> next_task lp' = next_task lp
       \<and> host c' = host c
       \<and> (err = None \<longrightarrow> ws_task c' = None)
       \<and> (err = None \<longrightarrow> async_stop_ws ending (c', lp') = (None, c', lp'))
       \<and> (err = None \<longrightarrow>
            (\<exists>c2 lp2. async_start_ws (c', lp') = (c2, lp2)
               \<and> ws_task c2 = Some (next_task lp') \<and> \<not> task_done lp2 (next_task lp')
               \<and> ws_stop c2 = False))
       \<and> (\<forall>e. err = Some e \<longrightarrow> (\<exists>t. ws_task c = Some t \<and> ending t = Some e \<and> ws_task c' = Some t))"
proof (cases "ws_task c")
  case None
  with assms have r: "err = None" "c' = c\<lparr>ws_stop := True\<rparr>" "lp' = lp"
    by (simp_all add: async_stop_ws_def)
  show ?thesis
    by (simp add: r None async_stop_ws_def async_start_ws_def create_task_def task_done_def)
next
  case (Some t)
  show ?thesis
  proof (cases "ending t")
    case None
    with assms Some have r: "err = None" "c' = c\<lparr>ws_stop := True, ws_task := None\<rparr>"
      "lp' = cancel_and_await lp t"
      by (simp_all add: async_stop_ws_def)
    show ?thesis
      by (simp add: r Some async_stop_ws_def async_start_ws_def create_task_def task_done_def
          cancel_and_await_def)
  next
    case (Some e)
    with assms \<open>ws_task c = Some t\<close> have r: "err = Some e" "c' = c\<lparr>ws_stop := True\<rparr>"
      "lp' = cancel_and_await lp t"
      by (simp_all add: async_stop_ws_def)
    show ?thesis
      by (simp add: r Some \<open>ws_task c = Some t\<close> task_done_def cancel_and_await_def)
  qed
qed

theorem stop_ws_joins_task_witness:
  "async_stop_ws (\<lambda>t. None) (example_client\<lparr>ws_task := Some 0\<rparr>, \<lparr>next_task = 1, running = [0]\<rparr>)
     = (None, example_client\<lparr>ws_stop := True\<rparr>, \<lparr>next_task = 1, running = []\<rparr>)
   \<and> ws_stop (example_client\<lparr>ws_stop := True\<rparr>)
   \<and> task_done \<lparr>next_task = 1, running = []\<rparr> 0
   \<and> ws_task (example_client\<lparr>ws_stop := True\<rparr>) = None
   \<and> (\<exists>c2 lp2. async_start_ws (example_client\<lparr>ws_stop := True\<rparr>, \<lparr>next_task = 1, running = []\<rparr>) = (c2, lp2)
          \<and> ws_task c2 = Some 1 \<and> \<not> task_done lp2 1 \<and> ws_stop c2 = False)"
proof -
  have v: "async_stop_ws (\<lambda>t. None) (example_client\<lparr>ws_task := Some 0\<rparr>, \<lparr>next_task = 1, running = [0]\<rparr>)
     = (None, example_client\<lparr>ws_stop := True\<rparr>, \<lparr>next_task = 1, running = []\<rparr>)"
    by code_simp
  have t: "ws_task (example_client\<lparr>ws_task := Some 0\<rparr>) = Some 0" by simp
  from stop_ws_joins_task[OF v] t v show ?thesis by simp
qed

text \<open>
  C10, as amended. When a service call leaves out the entry id (or gives the empty
  string) and at least one entry is loaded, the targets are all loaded entries, in the
  order of the registry, and finding them does not raise. The action is sent to them in
  that order, each request that returns being followed by the refresh request of its
  entry; when every request returns, every entry is served and nothing is raised; the
  first request that raises ends the call with its error, before the refresh of that
  entry and before any later entry. Finding the targets raises exactly when no entry is
  loaded or the given entry id is unknown.
\<close>

theorem omitted_entry_id:
  assumes "entries \<noteq> []" and "eid = None \<or> eid = Some []"
  shows "get_target_entries (Some entries) eid = Inr (map fst entries)
       \<and> (list_all (request_ok nets entries action) (map fst entries) \<longrightarrow>
            async_handle_job_service nets (Some entries) eid action
              = (served entries action (map fst entries), None))
       \<and> (map fst entries = pre @ t # post \<and> list_all (request_ok nets entries action) pre
            \<and> map_of entries t = Some item \<and> async_cnc_action (item_api item) (nets t) action = Inl e \<longrightarrow>
            async_handle_job_service nets (Some entries) eid action
              = (served entries action pre @ [HttpGet (cnc_request (item_api item) action)], Some e))
       \<and> ((\<exists>e'. get_target_entries reg eid' = Inl e') \<longleftrightarrow>
            (reg = None \<or> reg = Some []
             \<or> (\<exists>es x. reg = Some es \<and> eid' = Some x \<and> x \<noteq> [] \<and> map_of es x = None)))"
proof (intro conjI impI)
  show t: "get_target_entries (Some entries) eid = Inr (map fst entries)"
    using assms by (rule get_target_entries_omitted)
  {
    assume "list_all (request_ok nets entries action) (map fst entries)"
    from dispatch_all_ok[OF this] t
    show "async_handle_job_service nets (Some entries) eid action
              = (served entries action (map fst entries), None)"
      by (simp add: async_handle_job_service_def)
  }
  {
    assume a: "map fst entries = pre @ t # post \<and> list_all (request_ok nets entries action) pre
            \<and> map_of entries t = Some item \<and> async_cnc_action (item_api item) (nets t) action = Inl e"
    then have "dispatch nets entries action (pre @ t # post)
       = (served entries action pre @ [HttpGet (cnc_request (item_api item) action)], Some e)"
      using dispatch_first_failure[of nets entries action pre t item e post] by blast
    with a t show "async_handle_job_service nets (Some entries) eid action
              = (served entries action pre @ [HttpGet (cnc_request (item_api item) action)], Some e)"
      by (simp add: async_handle_job_service_def)
  }
  show "(\<exists>e'. get_target_entries reg eid' = Inl e') \<longleftrightarrow>
            (reg = None \<or> reg = Some []
             \<or> (\<exists>es x. reg = Some es \<and> eid' = Some x \<and> x \<noteq> [] \<and> map_of es x = None))"
    by (rule get_target_entries_raises)
qed

theorem omitted_entry_id_witness:
  "get_target_entries example_registry None = Inr [''e1'', ''e2'']
   \<and> list_all (request_ok (\<lambda>t. ok_net) (the example_registry) ''pause'') [''e1'', ''e2'']
   \<and> async_handle_job_service (\<lambda>t. ok_net) example_registry None ''pause''
      = ([HttpGet \<lparr>url = ''http://10.0.0.5:8080/cnc/data'', params = [(''action'', ''pause'')]\<rparr>,
          RequestRefresh ''e1'',
          HttpGet \<lparr>url = ''http://10.0.0.6:8080/cnc/data'', params = [(''action'', ''pause'')]\<rparr>,
          RequestRefresh ''e2''], None)
   \<and> async_cnc_action example_client (first_down_nets ''e1'') ''pause''
      = Inl (XToolApiError ''http://10.0.0.5:8080/cnc/data'' TimedOut)
   \<and> async_handle_job_service first_down_nets example_registry None ''pause''
      = ([HttpGet \<lparr>url = ''http://10.0.0.5:8080/cnc/data'', params = [(''action'', ''pause'')]\<rparr>],
         Some (XToolApiError ''http://10.0.0.5:8080/cnc/data'' TimedOut))"
proof -
  define entries :: "(string \<times> int entry_item) list" where "entries = the example_registry"
  define item :: "int entry_item" where
    "item = \<lparr>item_api = example_client, item_coordinator = example_coordinator\<rparr>"
  have reg: "example_registry = Some entries"
    by (simp add: entries_def example_registry_def)
  have ne: "entries \<noteq> []" by (simp add: entries_def example_registry_def)
  have names: "map fst entries = [''e1'', ''e2'']" by (simp add: entries_def example_registry_def)
  have ok: "list_all (request_ok (\<lambda>t. ok_net) entries ''pause'') (map fst entries)"
    unfolding entries_def by code_simp
  have sv: "served entries ''pause'' (map fst entries)
     = [HttpGet \<lparr>url = ''http://10.0.0.5:8080/cnc/data'', params = [(''action'', ''pause'')]\<rparr>,
        RequestRefresh ''e1'',
        HttpGet \<lparr>url = ''http://10.0.0.6:8080/cnc/data'', params = [(''action'', ''pause'')]\<rparr>,
        RequestRefresh ''e2'']"
    unfolding entries_def by code_simp
  have f1: "map fst entries = [] @ ''e1'' # [''e2'']" by (simp add: names)
  have f2: "list_all (request_ok first_down_nets entries ''pause'') []" by simp
  have f3: "map_of entries ''e1'' = Some item" by (simp add: entries_def item_def example_registry_def)
  have f4: "async_cnc_action (item_api item) (first_down_nets ''e1'') ''pause''
       = Inl (XToolApiError ''http://10.0.0.5:8080/cnc/data'' TimedOut)"
    unfolding item_def by code_simp
  have rq: "cnc_request (item_api item) ''pause''
       = \<lparr>url = ''http://10.0.0.5:8080/cnc/data'', params = [(''action'', ''pause'')]\<rparr>"
    unfolding item_def by code_simp
  note all_ok = omitted_entry_id[OF ne, of None "\<lambda>t. ok_net" "''pause''"]
  note first_fails = omitted_entry_id[OF ne, of None first_down_nets "''pause''" "[]" "''e1''" "[''e2'']" item
      "XToolApiError ''http://10.0.0.5:8080/cnc/data'' TimedOut"]
  have a: "get_target_entries (Some entries) None = Inr (map fst entries)"
    using all_ok[THEN conjunct1] by simp
  have b: "async_handle_job_service (\<lambda>t. ok_net) (Some entries) None ''pause''
      = (served entries ''pause'' (map fst entries), None)"
    using all_ok[THEN conjunct2, THEN conjunct1] ok by simp
  have c: "async_handle_job_service first_down_nets (Some entries) None ''pause''
      = (served entries ''pause'' [] @ [HttpGet (cnc_request (item_api item) ''pause'')],
         Some (XToolApiError ''http://10.0.0.5:8080/cnc/data'' TimedOut))"
    using first_fails[THEN conjunct2, THEN conjunct2, THEN conjunct1] f1 f2 f3 f4 by blast
  have s0: "served entries ''pause'' [] = []" by (simp add: served_def)
  have f4': "async_cnc_action example_client (first_down_nets ''e1'') ''pause''
      = Inl (XToolApiError ''http://10.0.0.5:8080/cnc/data'' TimedOut)"
    using f4 by (simp add: item_def)
  have ok': "list_all (request_ok (\<lambda>t. ok_net) (the example_registry) ''pause'') [''e1'', ''e2'']"
    using ok names by (simp add: entries_def)
  show ?thesis
    using a b c ok' f4' by (simp add: reg[symmetric] names sv[unfolded names] s0 rq)
qed

theorem omitted_entry_id_counterexample:
  "get_target_entries example_registry None = Inr [''e1'', ''e2'']
   \<and> async_handle_job_service first_down_nets example_registry None ''pause''
      = ([HttpGet \<lparr>url = ''http://10.0.0.5:8080/cnc/data'', params = [(''action'', ''pause'')]\<rparr>],
         Some (XToolApiError ''http://10.0.0.5:8080/cnc/data'' TimedOut))"
  by code_simp

text \<open>
  C9. \<^verbatim>\<open>async_start_ws\<close> is idempotent. When the client holds a task that is not done,
  the call changes nothing: no task is created and the task and the stop signal stay as
  they are. Otherwise it clears the stop signal and creates exactly one task, a new
  one, which the client then holds. So a second call directly after a first changes
  nothing.
\<close>

theorem start_ws_idempotent:
  "(ws_task c = Some t \<and> \<not> task_done lp t \<longrightarrow> async_start_ws (c, lp) = (c, lp))
   \<and> (ws_task c = None \<or> (\<exists>t. ws_task c = Some t \<and> task_done lp t) \<longrightarrow>
        (\<exists>c' lp'. async_start_ws (c, lp) = (c', lp')
           \<and> ws_stop c' = False \<and> ws_task c' = Some (next_task lp) \<and> host c' = host c
           \<and> running lp' = next_task lp # running lp
           \<and> \<not> task_done lp' (next_task lp)
           \<and> (list_all (\<lambda>r. r < next_task lp) (running lp) \<longrightarrow> task_done lp (next_task lp))))
   \<and> async_start_ws (async_start_ws (c, lp)) = async_start_ws (c, lp)"
proof (intro conjI impI)
  assume "ws_task c = Some t \<and> \<not> task_done lp t"
  then show "async_start_ws (c, lp) = (c, lp)" by (simp add: async_start_ws_def)
next
  assume "ws_task c = None \<or> (\<exists>t. ws_task c = Some t \<and> task_done lp t)"
  then have "async_start_ws (c, lp) =
     (c\<lparr>ws_stop := False, ws_task := Some (next_task lp)\<rparr>,
      lp\<lparr>next_task := Suc (next_task lp), running := next_task lp # running lp\<rparr>)"
    by (auto simp: async_start_ws_def create_task_def)
  then show "\<exists>c' lp'. async_start_ws (c, lp) = (c', lp')
           \<and> ws_stop c' = False \<and> ws_task c' = Some (next_task lp) \<and> host c' = host c
           \<and> running lp' = next_task lp # running lp
           \<and> \<not> task_done lp' (next_task lp)
           \<and> (list_all (\<lambda>r. r < next_task lp) (running lp) \<longrightarrow> task_done lp (next_task lp))"
    by (auto simp: task_done_def list_all_iff)
next
  show "async_start_ws (async_start_ws (c, lp)) = async_start_ws (c, lp)"
    by (auto simp: async_start_ws_def create_task_def task_done_def split: option.splits)
qed

theorem start_ws_idempotent_witness:
  "async_start_ws (example_client, idle_loop)
     = (example_client\<lparr>ws_task := Some 0\<rparr>, \<lparr>next_task = 1, running = [0]\<rparr>)
   \<and> ws_task (example_client\<lparr>ws_task := Some 0\<rparr>) = Some 0
   \<and> \<not> task_done \<lparr>next_task = 1, running = [0]\<rparr> 0
   \<and> async_start_ws (example_client\<lparr>ws_task := Some 0\<rparr>, \<lparr>next_task = 1, running = [0]\<rparr>)
     = (example_client\<lparr>ws_task := Some 0\<rparr>, \<lparr>next_task = 1, running = [0]\<rparr>)"
proof -
  have v: "async_start_ws (example_client, idle_loop)
     = (example_client\<lparr>ws_task := Some 0\<rparr>, \<lparr>next_task = 1, running = [0]\<rparr>)"
    by code_simp
  have h: "ws_task (example_client\<lparr>ws_task := Some 0\<rparr>) = Some 0
     \<and> \<not> task_done \<lparr>next_task = 1, running = [0]\<rparr> 0"
    by (simp add: task_done_def)
  from start_ws_idempotent[of "example_client\<lparr>ws_task := Some 0\<rparr>" 0 "\<lparr>next_task = 1, running = [0]\<rparr>"] h v
  show ?thesis by blast
qed

end
